theory Spec2Isabelle
  imports Complex_Main
begin

section \<open>The tables of events.db\<close>

text \<open>
  One record per table, a field per column of the CREATE TABLE statements of
  cleanup.ts (lines 86-146). A nullable column is an \<open>option\<close>. A TEXT value is a
  \<open>string\<close>, one list element per character, so that \<open>length\<close> is SQLite's
  LENGTH(), which counts the characters of a text (for a text without NUL characters).
  Timestamps are epoch milliseconds.
\<close>

record event =
  event_id :: int
  source_app :: string
  session_id :: string
  hook_event_type :: string
  payload :: string
  chat :: "string option"
  summary :: "string option"
  timestamp :: int

record theme =
  theme_id :: string
  name :: string
  displayName :: string
  description :: "string option"
  colors :: string
  theme_isPublic :: int
  authorId :: "string option"
  authorName :: "string option"
  theme_createdAt :: int
  updatedAt :: int
  tags :: "string option"
  downloadCount :: "int option"
  rating :: "real option"
  ratingCount :: "int option"

record theme_share =
  share_id :: string
  themeId :: string
  shareToken :: string
  expiresAt :: "int option"
  isPublic :: int
  allowedUsers :: "string option"
  createdAt :: int
  accessCount :: "int option"

record theme_rating =
  rating_id :: string
  rating_themeId :: string
  userId :: string
  rating_value :: int
  comment :: "string option"
  rating_createdAt :: int

datatype journal = Rollback | Wal

text \<open>
  A database file: its journal mode, its four tables (\<open>None\<close> while the table has not
  been created) and its indexes as (index name, table, column).
\<close>

record database =
  journal_mode :: journal
  events :: "event list option"
  themes :: "theme list option"
  theme_shares :: "theme_share list option"
  theme_ratings :: "theme_rating list option"
  indexes :: "(string \<times> string \<times> string) list"


section \<open>SQLite's JSON functions\<close>

text \<open>
  The UPDATE on lines 24-34 calls \<open>json_extract\<close> and \<open>json_object\<close>. Both are
  functions of the SQLite library that \<^verbatim>\<open>bun:sqlite\<close> links, not code of this
  repository, and which texts they accept as JSON and how they write a value back differ
  between the versions of SQLite. They are therefore taken as given: a record
  \<open>sqlite_json\<close> holds the two functions, every definition that reaches the UPDATE
  takes such a record, and the statements about them hold for each one.

  The values of the SQL expressions involved are NULL, an INTEGER, a REAL, a TEXT, and a
  TEXT that carries the JSON subtype (what \<open>json_extract\<close> returns for an array or an
  object).
\<close>

datatype sql_value = SqlNull | SqlInteger int | SqlReal real | SqlText string | SqlJson string

datatype error = Thrown nat | NoSuchTable string | NoSuchFile | MalformedJson

text \<open>
  \<open>json_extract lib doc path\<close> is \<^verbatim>\<open>json_extract(doc, path)\<close>: \<open>Inr\<close> the value
  it returns, or \<open>Inl\<close> the exception it raises (\<open>MalformedJson\<close> is SQLite's
  \<^verbatim>\<open>malformed JSON\<close>, raised for a text it does not accept).
  \<open>json_object lib pairs\<close> is \<^verbatim>\<open>json_object(label, value, ...)\<close>, the text of the
  object built from the labels and values in their order. It raises only for a label
  that is not a text and for a BLOB value, neither of which the UPDATE passes.
\<close>

record sqlite_json =
  json_extract :: "string \<Rightarrow> string \<Rightarrow> error + sql_value"
  json_object :: "(string \<times> sql_value) list \<Rightarrow> string"


section \<open>The SQL statements\<close>

text \<open>
  DELETE, UPDATE and SELECT COUNT( * ) over the rows of one table, the WHERE clause a
  predicate on a row. \<open>sql_delete\<close> and \<open>sql_update\<close> also give the number of rows
  they changed (\<open>changes\<close> of the statement's result). A SET expression is only
  evaluated on the rows the WHERE clause selects; when it raises, the statement fails as
  a whole and no row is changed.
\<close>

definition sql_delete :: "('r \<Rightarrow> bool) \<Rightarrow> 'r list \<Rightarrow> 'r list \<times> nat" where
  "sql_delete wh rows = (filter (\<lambda>r. \<not> wh r) rows, length (filter wh rows))"

fun sql_update :: "('r \<Rightarrow> bool) \<Rightarrow> ('r \<Rightarrow> error + 'r) \<Rightarrow> 'r list \<Rightarrow> error + 'r list \<times> nat" where
  "sql_update wh setter [] = Inr ([], 0)"
| "sql_update wh setter (r # rs) =
    (if wh r then
       (case setter r of
          Inl e \<Rightarrow> Inl e
        | Inr r' \<Rightarrow>
            (case sql_update wh setter rs of
               Inl e \<Rightarrow> Inl e
             | Inr (rs', n) \<Rightarrow> Inr (r' # rs', Suc n)))
     else
       (case sql_update wh setter rs of
          Inl e \<Rightarrow> Inl e
        | Inr (rs', n) \<Rightarrow> Inr (r # rs', n)))"

definition sql_count :: "('r \<Rightarrow> bool) \<Rightarrow> 'r list \<Rightarrow> nat" where
  "sql_count wh rows = length (filter wh rows)"

text \<open>Line 19: \<^verbatim>\<open>DELETE FROM events WHERE timestamp < ?\<close>.\<close>

definition remove_old_events :: "int \<Rightarrow> database \<Rightarrow> error + database \<times> nat" where
  "remove_old_events bound db =
    (case events db of
       None \<Rightarrow> Inl (NoSuchTable ''events'')
     | Some rows \<Rightarrow>
         (case sql_delete (\<lambda>e. timestamp e < bound) rows of
            (rows', n) \<Rightarrow> Inr (db\<lparr>events := Some rows'\<rparr>, n)))"

text \<open>
  Lines 24-34: \<^verbatim>\<open>UPDATE events SET payload = json_object('truncated', true,
  'original_size', LENGTH(payload), 'source_app', json_extract(payload, '$.source_app'),
  'session_id', json_extract(payload, '$.session_id'), 'hook_event_name',
  json_extract(payload, '$.hook_event_name')) WHERE LENGTH(payload) > 10000 AND
  timestamp < ?\<close>. The keyword \<^verbatim>\<open>true\<close> of SQLite is the integer 1.
\<close>

definition sql_true :: sql_value where
  "sql_true = SqlInteger 1"

definition large_and_old :: "int \<Rightarrow> event \<Rightarrow> bool" where
  "large_and_old bound e = (length (payload e) > 10000 \<and> timestamp e < bound)"

definition marker :: "sqlite_json \<Rightarrow> string \<Rightarrow> error + string" where
  "marker lib p =
    (case json_extract lib p ''$.source_app'' of
       Inl e \<Rightarrow> Inl e
     | Inr a \<Rightarrow>
         (case json_extract lib p ''$.session_id'' of
            Inl e \<Rightarrow> Inl e
          | Inr s \<Rightarrow>
              (case json_extract lib p ''$.hook_event_name'' of
                 Inl e \<Rightarrow> Inl e
               | Inr h \<Rightarrow>
                   Inr (json_object lib
                     [(''truncated'', sql_true),
                      (''original_size'', SqlInteger (int (length p))),
                      (''source_app'', a),
                      (''session_id'', s),
                      (''hook_event_name'', h)]))))"

definition set_marker :: "sqlite_json \<Rightarrow> event \<Rightarrow> error + event" where
  "set_marker lib e =
    (case marker lib (payload e) of Inl x \<Rightarrow> Inl x | Inr m \<Rightarrow> Inr (e\<lparr>payload := m\<rparr>))"

definition truncate_large_payloads :: "sqlite_json \<Rightarrow> int \<Rightarrow> database \<Rightarrow> error + database \<times> nat" where
  "truncate_large_payloads lib bound db =
    (case events db of
       None \<Rightarrow> Inl (NoSuchTable ''events'')
     | Some rows \<Rightarrow>
         (case sql_update (large_and_old bound) (set_marker lib) rows of
            Inl e \<Rightarrow> Inl e
          | Inr (rows', n) \<Rightarrow> Inr (db\<lparr>events := Some rows'\<rparr>, n)))"

text \<open>
  Lines 40-43: \<^verbatim>\<open>DELETE FROM theme_shares WHERE expiresAt IS NOT NULL AND
  expiresAt < ?\<close>.
\<close>

definition expired :: "int \<Rightarrow> theme_share \<Rightarrow> bool" where
  "expired bound s = (case expiresAt s of None \<Rightarrow> False | Some t \<Rightarrow> t < bound)"

definition remove_expired_shares :: "int \<Rightarrow> database \<Rightarrow> error + database \<times> nat" where
  "remove_expired_shares bound db =
    (case theme_shares db of
       None \<Rightarrow> Inl (NoSuchTable ''theme_shares'')
     | Some rows \<Rightarrow>
         (case sql_delete (expired bound) rows of
            (rows', n) \<Rightarrow> Inr (db\<lparr>theme_shares := Some rows'\<rparr>, n)))"

text \<open>Lines 188-195: \<^verbatim>\<open>SELECT COUNT( * ) as count FROM events [WHERE ...]\<close>.\<close>

definition count_events :: "(event \<Rightarrow> bool) \<Rightarrow> database \<Rightarrow> error + nat" where
  "count_events wh db =
    (case events db of
       None \<Rightarrow> Inl (NoSuchTable ''events'')
     | Some rows \<Rightarrow> Inr (sql_count wh rows))"

text \<open>
  Lines 86-157: CREATE TABLE IF NOT EXISTS leaves a table that exists as it is and
  creates an empty one otherwise; CREATE INDEX IF NOT EXISTS leaves an index of that
  name as it is, and needs its table otherwise.
\<close>

definition has_table :: "database \<Rightarrow> string \<Rightarrow> bool" where
  "has_table db t =
    (if t = ''events'' then events db \<noteq> None
     else if t = ''themes'' then themes db \<noteq> None
     else if t = ''theme_shares'' then theme_shares db \<noteq> None
     else if t = ''theme_ratings'' then theme_ratings db \<noteq> None
     else False)"

definition create_events :: "database \<Rightarrow> database" where
  "create_events db = (case events db of None \<Rightarrow> db\<lparr>events := Some []\<rparr> | Some _ \<Rightarrow> db)"

definition create_themes :: "database \<Rightarrow> database" where
  "create_themes db = (case themes db of None \<Rightarrow> db\<lparr>themes := Some []\<rparr> | Some _ \<Rightarrow> db)"

definition create_theme_shares :: "database \<Rightarrow> database" where
  "create_theme_shares db =
    (case theme_shares db of None \<Rightarrow> db\<lparr>theme_shares := Some []\<rparr> | Some _ \<Rightarrow> db)"

definition create_theme_ratings :: "database \<Rightarrow> database" where
  "create_theme_ratings db =
    (case theme_ratings db of None \<Rightarrow> db\<lparr>theme_ratings := Some []\<rparr> | Some _ \<Rightarrow> db)"

definition create_index :: "string \<Rightarrow> string \<Rightarrow> string \<Rightarrow> database \<Rightarrow> error + database" where
  "create_index idx t col db =
    (if idx \<in> fst ` set (indexes db) then Inr db
     else if has_table db t then Inr (db\<lparr>indexes := indexes db @ [(idx, t, col)]\<rparr>)
     else Inl (NoSuchTable t))"



section \<open>The files, the console and the environment\<close>

text \<open>
  The state the two entry points work on: the database at \<^verbatim>\<open>events.db\<close> as a
  connection reads it, that is the main file together with its write-ahead log (\<open>None\<close>
  when there is no file at the path), the directory \<^verbatim>\<open>backups\<close> (\<open>None\<close> when it
  does not exist) as a map from the path of a backup to the file, and what has been
  written to the console. A console line is recorded as its message and the values it
  interpolates.
\<close>

datatype log_entry =
    Starting
  | InitialSize nat
  | DeletedOld nat
  | TruncatedPayloads nat
  | DeletedShares nat
  | RunningVacuum
  | Reindexing
  | FinalSize nat
  | SpaceSaved int
  | StillLarge
  | CreatedBackup string
  | CreatedFresh
  | Completed
  | CleanupError error
  | StatsError error

record world =
  live :: "database option"
  backups :: "(string \<rightharpoonup> database) option"
  console :: "log_entry list"

text \<open>
  What a run of \<open>cleanupEventsDB\<close> reads from outside: which library call raises
  (by the source line of the call), the three readings of \<^verbatim>\<open>Date.now()\<close> (lines 18,
  23 and 39), the ISO string of \<^verbatim>\<open>new Date()\<close> on line 73, the two file sizes
  measured on lines 14 and 60, and the content of the main file \<^verbatim>\<open>events.db\<close> at
  the moment line 75 renames it.

  The last one is a reading of its own because the main file is not the database. In WAL
  mode the statements of lines 19-55 write to the write-ahead log, and pages reach the
  main file only at a checkpoint. \<^verbatim>\<open>db.close()\<close> on line 57 forces none: the
  statements prepared on lines 19, 24 and 40 are never finalized, so the connection
  stays open behind the call. The main file then holds what the checkpoints so far have
  copied into it, which may be the database of before the run.
\<close>

record cleanup_env =
  throws :: "nat \<Rightarrow> bool"
  date_now_18 :: int
  date_now_23 :: int
  date_now_39 :: int
  iso_string_73 :: string
  initialSize :: nat
  finalSize :: nat
  main_file_75 :: database

text \<open>
  A step of a try block: \<open>Inr\<close> the state it leaves, or \<open>Inl\<close> the exception with
  the state at the moment it was raised (nothing is rolled back).
\<close>

type_synonym step = "world \<Rightarrow> error \<times> world + world"

fun run_steps :: "step list \<Rightarrow> step" where
  "run_steps [] w = Inr w"
| "run_steps (f # fs) w = (case f w of Inl x \<Rightarrow> Inl x | Inr w' \<Rightarrow> run_steps fs w')"

definition say :: "log_entry \<Rightarrow> world \<Rightarrow> world" where
  "say m w = w\<lparr>console := console w @ [m]\<rparr>"

definition tell :: "log_entry \<Rightarrow> step" where
  "tell m w = Inr (say m w)"

definition blank_database :: database where
  "blank_database =
    \<lparr>journal_mode = Rollback, events = None, themes = None, theme_shares = None,
     theme_ratings = None, indexes = []\<rparr>"

text \<open>
  \<^verbatim>\<open>new Database('events.db')\<close> opens the file and creates an empty database when
  there is none (line 79 relies on it).
\<close>

definition open_database :: "(nat \<Rightarrow> bool) \<Rightarrow> nat \<Rightarrow> step" where
  "open_database thr line w =
    (if thr line then Inl (Thrown line, w)
     else Inr (case live w of None \<Rightarrow> w\<lparr>live := Some blank_database\<rparr> | Some _ \<Rightarrow> w))"

definition close_database :: "(nat \<Rightarrow> bool) \<Rightarrow> nat \<Rightarrow> step" where
  "close_database thr line w = (if thr line then Inl (Thrown line, w) else Inr w)"

text \<open>\<open>db.exec\<close> of a statement, and \<open>db.prepare(...).run(...)\<close> followed by the
  console line that reports its \<open>changes\<close>.\<close>

definition exec :: "(nat \<Rightarrow> bool) \<Rightarrow> nat \<Rightarrow> (database \<Rightarrow> error + database) \<Rightarrow> step" where
  "exec thr line stmt w =
    (if thr line then Inl (Thrown line, w)
     else
       (case live w of
          None \<Rightarrow> Inl (NoSuchFile, w)
        | Some db \<Rightarrow>
            (case stmt db of
               Inl e \<Rightarrow> Inl (e, w)
             | Inr db' \<Rightarrow> Inr (w\<lparr>live := Some db'\<rparr>))))"

definition run_logged ::
  "(nat \<Rightarrow> bool) \<Rightarrow> nat \<Rightarrow> (database \<Rightarrow> error + database \<times> nat) \<Rightarrow> (nat \<Rightarrow> log_entry) \<Rightarrow> step" where
  "run_logged thr line stmt report w =
    (if thr line then Inl (Thrown line, w)
     else
       (case live w of
          None \<Rightarrow> Inl (NoSuchFile, w)
        | Some db \<Rightarrow>
            (case stmt db of
               Inl e \<Rightarrow> Inl (e, w)
             | Inr (db', n) \<Rightarrow> Inr (say (report n) (w\<lparr>live := Some db'\<rparr>)))))"

definition set_wal :: "database \<Rightarrow> error + database" where
  "set_wal db = Inr (db\<lparr>journal_mode := Wal\<rparr>)"

text \<open>
  \<^verbatim>\<open>PRAGMA synchronous\<close> is a setting of the connection; VACUUM, REINDEX and ANALYZE
  rewrite the file, its indexes and the planner's statistics. None of them changes a
  row, a table or the journal mode.
\<close>

definition keeps_rows :: "database \<Rightarrow> error + database" where
  "keeps_rows db = Inr db"

section \<open>cleanupEventsDB\<close>

definition seven_days :: int where
  "seven_days = 7 * 24 * 60 * 60 * 1000"

definition one_day :: int where
  "one_day = 24 * 60 * 60 * 1000"

text \<open>Lines 8-62: open, retention (steps 1-3), compaction (steps 4-6), close, sizes.\<close>

definition retain_and_compact :: "sqlite_json \<Rightarrow> cleanup_env \<Rightarrow> step" where
  "retain_and_compact lib env =
    run_steps
      [open_database (throws env) 8,
       exec (throws env) 11 set_wal,
       tell (InitialSize (initialSize env)),
       run_logged (throws env) 19 (remove_old_events (date_now_18 env - seven_days)) DeletedOld,
       run_logged (throws env) 35 (truncate_large_payloads lib (date_now_23 env - one_day)) TruncatedPayloads,
       run_logged (throws env) 43 (remove_expired_shares (date_now_39 env)) DeletedShares,
       tell RunningVacuum,
       exec (throws env) 48 keeps_rows,
       tell Reindexing,
       exec (throws env) 52 keeps_rows,
       exec (throws env) 55 keeps_rows,
       close_database (throws env) 57,
       tell (FinalSize (finalSize env)),
       tell (SpaceSaved (int (initialSize env) - int (finalSize env)))]"

text \<open>Lines 69-71: \<^verbatim>\<open>if (!existsSync('backups')) mkdirSync('backups')\<close>.\<close>

definition ensure_backups :: "cleanup_env \<Rightarrow> step" where
  "ensure_backups env w =
    (case backups w of
       Some _ \<Rightarrow> Inr w
     | None \<Rightarrow>
         if throws env 70 then Inl (Thrown 70, w)
         else Inr (w\<lparr>backups := Some Map.empty\<rparr>))"

text \<open>
  Lines 73-76: the backup's name from the ISO time with \<open>:\<close> and \<open>.\<close> replaced by
  \<open>-\<close>, and \<^verbatim>\<open>renameSync('events.db', backupName)\<close>. The call moves the main
  file, so the backup is the main file as it is at that moment (\<open>main_file_75\<close>) and
  not the database that the connection of lines 8-57 has been reading and writing. The
  write-ahead log stays behind without its main file: no database is left at
  \<^verbatim>\<open>events.db\<close>, and SQLite deletes the log when line 79 opens a new, empty file there.
\<close>

definition backupName :: "string \<Rightarrow> string" where
  "backupName stamp =
    ''backups/events_'' @ map (\<lambda>c. if c = CHR '':'' \<or> c = CHR ''.'' then CHR ''-'' else c) stamp @ ''.db''"

definition rename_live :: "cleanup_env \<Rightarrow> step" where
  "rename_live env w =
    (if throws env 75 then Inl (Thrown 75, w)
     else
       (case live w of
          None \<Rightarrow> Inl (NoSuchFile, w)
        | Some _ \<Rightarrow>
            (case backups w of
               None \<Rightarrow> Inl (NoSuchFile, w)
             | Some dir \<Rightarrow>
                 Inr (say (CreatedBackup (backupName (iso_string_73 env)))
                   (w\<lparr>live := None,
                      backups := Some (dir(backupName (iso_string_73 env) \<mapsto> main_file_75 env))\<rparr>)))))"

text \<open>Lines 79-161: the fresh database with the current schema.\<close>

definition reinitialize :: "cleanup_env \<Rightarrow> step" where
  "reinitialize env =
    run_steps
      [open_database (throws env) 79,
       exec (throws env) 82 set_wal,
       exec (throws env) 83 keeps_rows,
       exec (throws env) 86 (\<lambda>db. Inr (create_events db)),
       exec (throws env) 100 (\<lambda>db. Inr (create_themes db)),
       exec (throws env) 120 (\<lambda>db. Inr (create_theme_shares db)),
       exec (throws env) 135 (\<lambda>db. Inr (create_theme_ratings db)),
       exec (throws env) 149 (create_index ''idx_source_app'' ''events'' ''source_app''),
       exec (throws env) 150 (create_index ''idx_session_id'' ''events'' ''session_id''),
       exec (throws env) 151 (create_index ''idx_hook_event_type'' ''events'' ''hook_event_type''),
       exec (throws env) 152 (create_index ''idx_timestamp'' ''events'' ''timestamp''),
       exec (throws env) 153 (create_index ''idx_themes_name'' ''themes'' ''name''),
       exec (throws env) 154 (create_index ''idx_themes_isPublic'' ''themes'' ''isPublic''),
       exec (throws env) 155 (create_index ''idx_themes_createdAt'' ''themes'' ''createdAt''),
       exec (throws env) 156 (create_index ''idx_theme_shares_token'' ''theme_shares'' ''shareToken''),
       exec (throws env) 157 (create_index ''idx_theme_ratings_theme'' ''theme_ratings'' ''themeId''),
       close_database (throws env) 159,
       tell CreatedFresh]"

text \<open>Lines 64-162: step 7, the backup rotation.\<close>

definition rotation_threshold :: nat where
  "rotation_threshold = 50 * 1024 * 1024"

definition rotate :: "cleanup_env \<Rightarrow> step" where
  "rotate env w =
    (if finalSize env > rotation_threshold then
       run_steps [tell StillLarge, ensure_backups env, rename_live env, reinitialize env] w
     else Inr w)"

text \<open>
  Lines 4-168: the body of the try block, and the function with its catch, which
  writes the exception to the console and returns.
\<close>

definition try_cleanup :: "sqlite_json \<Rightarrow> cleanup_env \<Rightarrow> step" where
  "try_cleanup lib env = run_steps [retain_and_compact lib env, rotate env, tell Completed]"

definition cleanupEventsDB :: "sqlite_json \<Rightarrow> cleanup_env \<Rightarrow> world \<Rightarrow> world" where
  "cleanupEventsDB lib env w =
    (case try_cleanup lib env (say Starting w) of
       Inr w' \<Rightarrow> w'
     | Inl (e, w') \<Rightarrow> say (CleanupError e) w')"

section \<open>getDatabaseStats\<close>

record stats =
  size_bytes :: nat
  sizeFormatted :: string
  totalEvents :: nat
  eventsLast7Days :: nat
  oldEvents :: nat
  largePayloads :: nat
  lastCleanup :: string

text \<open>
  What a call reads from outside: which library call raises, the file size of line
  184, \<^verbatim>\<open>Date.now()\<close> of line 190 and the ISO string of \<^verbatim>\<open>new Date()\<close> of line 206.
\<close>

record stats_env =
  stats_throws :: "nat \<Rightarrow> bool"
  size_184 :: nat
  date_now_190 :: int
  iso_string_206 :: string

text \<open>Decimal digits of a natural number.\<close>

fun show_nat :: "nat \<Rightarrow> string" where
  "show_nat n = (if n < 10 then [''0123456789'' ! n] else show_nat (n div 10) @ [''0123456789'' ! (n mod 10)])"

declare show_nat.simps [simp del]

text \<open>
  \<^verbatim>\<open>(size / 1024 / 1024).toFixed(2)\<close>: the quotient is exact in binary floating
  point, and \<open>toFixed\<close> takes the nearest number of hundredths, the larger one of two.
\<close>

definition to_fixed_2_mb :: "nat \<Rightarrow> string" where
  "to_fixed_2_mb n =
    (let h = (n * 200 + 1048576) div 2097152 in
     show_nat (h div 100) @ CHR ''.'' # [''0123456789'' ! (h mod 100 div 10), ''0123456789'' ! (h mod 10)])"

definition query :: "stats_env \<Rightarrow> nat \<Rightarrow> (event \<Rightarrow> bool) \<Rightarrow> world \<Rightarrow> error + nat" where
  "query env line wh w =
    (if stats_throws env line then Inl (Thrown line)
     else (case live w of None \<Rightarrow> Inl NoSuchFile | Some db \<Rightarrow> count_events wh db))"

definition try_stats :: "stats_env \<Rightarrow> world \<Rightarrow> error \<times> world + stats \<times> world" where
  "try_stats env w =
    (case open_database (stats_throws env) 181 w of
       Inl x \<Rightarrow> Inl x
     | Inr w1 \<Rightarrow>
         (case query env 188 (\<lambda>e. True) w1 of
            Inl x \<Rightarrow> Inl (x, w1)
          | Inr n_total \<Rightarrow>
              (case query env 191 (\<lambda>e. timestamp e > date_now_190 env - seven_days) w1 of
                 Inl x \<Rightarrow> Inl (x, w1)
               | Inr n_recent \<Rightarrow>
                   (case query env 193 (\<lambda>e. timestamp e < date_now_190 env - seven_days) w1 of
                      Inl x \<Rightarrow> Inl (x, w1)
                    | Inr n_old \<Rightarrow>
                        (case query env 195 (\<lambda>e. length (payload e) > 10000) w1 of
                           Inl x \<Rightarrow> Inl (x, w1)
                         | Inr n_large \<Rightarrow>
                             (case close_database (stats_throws env) 197 w1 of
                                Inl x \<Rightarrow> Inl x
                              | Inr w2 \<Rightarrow>
                                  Inr (\<lparr>size_bytes = size_184 env,
                                        sizeFormatted = to_fixed_2_mb (size_184 env) @ '' MB'',
                                        totalEvents = n_total,
                                        eventsLast7Days = n_recent,
                                        oldEvents = n_old,
                                        largePayloads = n_large,
                                        lastCleanup = iso_string_206 env\<rparr>, w2)))))))"

definition sentinel :: stats where
  "sentinel =
    \<lparr>size_bytes = 0, sizeFormatted = ''0 MB'', totalEvents = 0, eventsLast7Days = 0,
     oldEvents = 0, largePayloads = 0, lastCleanup = ''Never''\<rparr>"

definition getDatabaseStats :: "stats_env \<Rightarrow> world \<Rightarrow> stats \<times> world" where
  "getDatabaseStats env w =
    (case try_stats env w of
       Inr r \<Rightarrow> r
     | Inl (e, w') \<Rightarrow> (sentinel, say (StatsError e) w'))"



section \<open>Notions the properties are stated with\<close>

text \<open>
  A call of \<open>getDatabaseStats\<close> fails to read when one of its library calls raises
  (the open of line 181, a count query of lines 188-195, the close of line 197) or the
  file has no events table, as the empty database has that the open creates when there
  is no file.
\<close>

definition stats_calls :: "nat list" where
  "stats_calls = [181, 188, 191, 193, 195, 197]"

definition stats_fails :: "stats_env \<Rightarrow> world \<Rightarrow> bool" where
  "stats_fails env w =
    (list_ex (stats_throws env) stats_calls
     \<or> (case live w of None \<Rightarrow> True | Some db \<Rightarrow> events db = None))"

definition live_events :: "world \<Rightarrow> event list" where
  "live_events w =
    (case live w of
       None \<Rightarrow> []
     | Some db \<Rightarrow> (case events db of None \<Rightarrow> [] | Some rows \<Rightarrow> rows))"

text \<open>The library calls of the rotation (lines 70-159), and the database that lines
  79-159 leave at \<^verbatim>\<open>events.db\<close> when there was no file.\<close>

definition rotation_calls :: "nat list" where
  "rotation_calls =
    [70, 75, 79, 82, 83, 86, 100, 120, 135, 149, 150, 151, 152, 153, 154, 155, 156, 157, 159]"

definition fresh_database :: database where
  "fresh_database =
    \<lparr>journal_mode = Wal, events = Some [], themes = Some [], theme_shares = Some [],
     theme_ratings = Some [],
     indexes =
       [(''idx_source_app'', ''events'', ''source_app''),
        (''idx_session_id'', ''events'', ''session_id''),
        (''idx_hook_event_type'', ''events'', ''hook_event_type''),
        (''idx_timestamp'', ''events'', ''timestamp''),
        (''idx_themes_name'', ''themes'', ''name''),
        (''idx_themes_isPublic'', ''themes'', ''isPublic''),
        (''idx_themes_createdAt'', ''themes'', ''createdAt''),
        (''idx_theme_shares_token'', ''theme_shares'', ''shareToken''),
        (''idx_theme_ratings_theme'', ''theme_ratings'', ''themeId'')]\<rparr>"

section \<open>Sample stores and environments\<close>

definition sample_event :: "int \<Rightarrow> string \<Rightarrow> int \<Rightarrow> event" where
  "sample_event i p t =
    \<lparr>event_id = i, source_app = ''app'', session_id = ''s1'', hook_event_type = ''Stop'',
     payload = p, chat = None, summary = Some ''done'', timestamp = t\<rparr>"

definition sample_share :: "string \<Rightarrow> int option \<Rightarrow> int option \<Rightarrow> theme_share" where
  "sample_share i ex n =
    \<lparr>share_id = i, themeId = ''t1'', shareToken = i, expiresAt = ex, isPublic = 0,
     allowedUsers = None, createdAt = 5, accessCount = n\<rparr>"

text \<open>Environments in which no library call raises, or only the one of line \<open>k\<close>.\<close>

fun never :: "nat \<Rightarrow> bool" where
  "never l = False"

fun only :: "nat \<Rightarrow> nat \<Rightarrow> bool" where
  "only k l = (l = k)"

definition sample_db :: "event list \<Rightarrow> theme_share list \<Rightarrow> database" where
  "sample_db es ss =
    \<lparr>journal_mode = Wal, events = Some es, themes = Some [], theme_shares = Some ss,
     theme_ratings = Some [], indexes = []\<rparr>"

definition sample_world :: "event list \<Rightarrow> theme_share list \<Rightarrow> world" where
  "sample_world es ss = \<lparr>live = Some (sample_db es ss), backups = None, console = []\<rparr>"

definition no_file :: world where
  "no_file = \<lparr>live = None, backups = None, console = []\<rparr>"

definition sample_stats_env :: "(nat \<Rightarrow> bool) \<Rightarrow> stats_env" where
  "sample_stats_env thr =
    \<lparr>stats_throws = thr, size_184 = 1572864, date_now_190 = 604800100,
     iso_string_206 = ''2026-11-04T08:00:00.000Z''\<rparr>"

text \<open>
  A run at 604,800,100 ms (the seven-day cutoff is 100, the one-day cutoff 518,400,101),
  with the calls that raise, the size measured after compaction and the main file found
  at the rename.
\<close>

definition sample_cleanup_env :: "(nat \<Rightarrow> bool) \<Rightarrow> nat \<Rightarrow> database \<Rightarrow> cleanup_env" where
  "sample_cleanup_env thr final main =
    \<lparr>throws = thr, date_now_18 = 604800100, date_now_23 = 604800101, date_now_39 = 604800102,
     iso_string_73 = ''2026-11-03T10:20:30.123Z'', initialSize = 60000000, finalSize = final,
     main_file_75 = main\<rparr>"

text \<open>
  Payloads of more than 10,000 characters: a document with the three preserved members
  and a long \<open>data\<close> member; a document whose \<open>source_app\<close> is itself long, with
  the marker the UPDATE writes for it and the marker it writes for that marker; a
  document without the three members; and a text that is not JSON.
\<close>

definition padded_payload :: string where
  \<open>padded_payload =
    ''{"source_app":"app","session_id":"s1","hook_event_name":"Stop","data":"''
      @ replicate 10000 (CHR ''x'') @ ''"}''\<close>

definition padded_marker :: string where
  \<open>padded_marker =
    ''{"truncated":1,"original_size":10073,"source_app":"app","session_id":"s1","hook_event_name":"Stop"}''\<close>

definition oversized_payload :: string where
  \<open>oversized_payload = ''{"source_app":"'' @ replicate 10000 (CHR ''a'') @ ''"}''\<close>

definition first_marker :: string where
  \<open>first_marker =
    ''{"truncated":1,"original_size":10017,"source_app":"'' @ replicate 10000 (CHR ''a'')
      @ ''","session_id":null,"hook_event_name":null}''\<close>

definition second_marker :: string where
  \<open>second_marker =
    ''{"truncated":1,"original_size":10094,"source_app":"'' @ replicate 10000 (CHR ''a'')
      @ ''","session_id":null,"hook_event_name":null}''\<close>

definition keyless_payload :: string where
  \<open>keyless_payload = ''{"data":"'' @ replicate 10000 (CHR ''x'') @ ''"}''\<close>

definition keyless_marker :: string where
  \<open>keyless_marker =
    ''{"truncated":1,"original_size":10011,"source_app":null,"session_id":null,"hook_event_name":null}''\<close>

definition not_json_payload :: string where
  "not_json_payload = replicate 10001 (CHR ''x'')"

text \<open>
  What SQLite answers on these payloads: the three calls of \<open>json_extract\<close> that the
  UPDATE makes on each payload, and the call of \<open>json_object\<close> that follows.
  \<open>sample_sqlite\<close> is a library that gives these answers. Nothing is said of its
  answers elsewhere, and the statements that use it call it on these arguments only.
\<close>

definition observed_extracts :: "((string \<times> string) \<times> (error + sql_value)) list" where
  "observed_extracts =
    [((padded_payload, ''$.source_app''), Inr (SqlText ''app'')),
     ((padded_payload, ''$.session_id''), Inr (SqlText ''s1'')),
     ((padded_payload, ''$.hook_event_name''), Inr (SqlText ''Stop'')),
     ((oversized_payload, ''$.source_app''), Inr (SqlText (replicate 10000 (CHR ''a'')))),
     ((oversized_payload, ''$.session_id''), Inr SqlNull),
     ((oversized_payload, ''$.hook_event_name''), Inr SqlNull),
     ((first_marker, ''$.source_app''), Inr (SqlText (replicate 10000 (CHR ''a'')))),
     ((first_marker, ''$.session_id''), Inr SqlNull),
     ((first_marker, ''$.hook_event_name''), Inr SqlNull),
     ((keyless_payload, ''$.source_app''), Inr SqlNull),
     ((keyless_payload, ''$.session_id''), Inr SqlNull),
     ((keyless_payload, ''$.hook_event_name''), Inr SqlNull),
     ((not_json_payload, ''$.source_app''), Inl MalformedJson),
     ((not_json_payload, ''$.session_id''), Inl MalformedJson),
     ((not_json_payload, ''$.hook_event_name''), Inl MalformedJson)]"

definition observed_objects :: "((string \<times> sql_value) list \<times> string) list" where
  "observed_objects =
    [([(''truncated'', SqlInteger 1), (''original_size'', SqlInteger 10073),
       (''source_app'', SqlText ''app''), (''session_id'', SqlText ''s1''),
       (''hook_event_name'', SqlText ''Stop'')], padded_marker),
     ([(''truncated'', SqlInteger 1), (''original_size'', SqlInteger 10017),
       (''source_app'', SqlText (replicate 10000 (CHR ''a''))), (''session_id'', SqlNull),
       (''hook_event_name'', SqlNull)], first_marker),
     ([(''truncated'', SqlInteger 1), (''original_size'', SqlInteger 10094),
       (''source_app'', SqlText (replicate 10000 (CHR ''a''))), (''session_id'', SqlNull),
       (''hook_event_name'', SqlNull)], second_marker),
     ([(''truncated'', SqlInteger 1), (''original_size'', SqlInteger 10011),
       (''source_app'', SqlNull), (''session_id'', SqlNull),
       (''hook_event_name'', SqlNull)], keyless_marker)]"

definition sample_sqlite :: sqlite_json where
  "sample_sqlite =
    \<lparr>json_extract = (\<lambda>doc path. case map_of observed_extracts (doc, path) of
                                   Some answer \<Rightarrow> answer | None \<Rightarrow> undefined),
     json_object = (\<lambda>pairs. case map_of observed_objects pairs of
                              Some text \<Rightarrow> text | None \<Rightarrow> undefined)\<rparr>"

section \<open>Facts about the UPDATE and the sample library\<close>

lemma sql_update_Inr:
  "sql_update wh st rows = Inr (rows', n) \<Longrightarrow>
     list_all2 (\<lambda>r r'. if wh r then st r = Inr r' else r' = r) rows rows' \<and> n = length (filter wh rows)"
  by (induction rows arbitrary: rows' n)
    (auto split: if_splits sum.splits prod.splits elim!: list_all2_mono)


lemma sql_update_none:
  "\<forall>r \<in> set rows. \<not> wh r \<Longrightarrow> sql_update wh st rows = Inr (rows, 0)"
  by (induction rows) auto



lemma length_padded: "length padded_payload = 10073"
  by (simp add: padded_payload_def)

lemma length_padded_marker: "length padded_marker = 99"
  by (simp add: padded_marker_def)

lemma length_oversized: "length oversized_payload = 10017"
  by (simp add: oversized_payload_def)

lemma length_first_marker: "length first_marker = 10094"
  by (simp add: first_marker_def)

lemma length_keyless: "length keyless_payload = 10011"
  by (simp add: keyless_payload_def)

lemma length_not_json: "length not_json_payload = 10001"
  by (simp add: not_json_payload_def)

lemma sample_payloads_differ:
  "oversized_payload \<noteq> padded_payload"
  "first_marker \<noteq> padded_payload" "first_marker \<noteq> oversized_payload"
  "keyless_payload \<noteq> padded_payload" "keyless_payload \<noteq> oversized_payload"
  "keyless_payload \<noteq> first_marker"
  "not_json_payload \<noteq> padded_payload" "not_json_payload \<noteq> oversized_payload"
  "not_json_payload \<noteq> first_marker" "not_json_payload \<noteq> keyless_payload"
  using length_padded length_oversized length_first_marker length_keyless length_not_json
  by auto

lemmas sample_sqlite_defs = marker_def sample_sqlite_def observed_extracts_def observed_objects_def
  sql_true_def sample_payloads_differ

lemma marker_padded: "marker sample_sqlite padded_payload = Inr padded_marker"
  by (simp add: sample_sqlite_defs length_padded)

lemma marker_oversized: "marker sample_sqlite oversized_payload = Inr first_marker"
  by (simp add: sample_sqlite_defs length_oversized)

lemma marker_first_marker: "marker sample_sqlite first_marker = Inr second_marker"
  by (simp add: sample_sqlite_defs length_first_marker)




section \<open>Facts about the steps\<close>

lemmas step_defs = open_database_def close_database_def exec_def run_logged_def tell_def say_def
  set_wal_def keeps_rows_def

lemma retain_and_compact_Inr:
  assumes "retain_and_compact lib env w = Inr w1"
  shows "\<exists>db db1 n1 db2 n2 db3 n3.
      live w = Some db \<and>
      remove_old_events (date_now_18 env - seven_days) (db\<lparr>journal_mode := Wal\<rparr>) = Inr (db1, n1) \<and>
      truncate_large_payloads lib (date_now_23 env - one_day) db1 = Inr (db2, n2) \<and>
      remove_expired_shares (date_now_39 env) db2 = Inr (db3, n3) \<and>
      w1 = w\<lparr>live := Some db3,
             console := console w @
               [InitialSize (initialSize env), DeletedOld n1, TruncatedPayloads n2, DeletedShares n3,
                RunningVacuum, Reindexing, FinalSize (finalSize env),
                SpaceSaved (int (initialSize env) - int (finalSize env))]\<rparr>"
proof (cases "live w")
  case None
  with assms show ?thesis
    by (simp add: retain_and_compact_def step_defs remove_old_events_def blank_database_def
        split: if_splits)
next
  case (Some db)
  with assms show ?thesis
    by (auto simp add: retain_and_compact_def step_defs split: if_splits sum.splits prod.splits)
qed

lemma reinitialize_fresh:
  assumes "\<forall>l \<in> set rotation_calls. \<not> throws env l" and "live w = None"
  shows "reinitialize env w = Inr (w\<lparr>live := Some fresh_database, console := console w @ [CreatedFresh]\<rparr>)"
  using assms
  by (simp add: reinitialize_def rotation_calls_def step_defs blank_database_def fresh_database_def
      create_events_def create_themes_def create_theme_shares_def create_theme_ratings_def
      create_index_def has_table_def)

lemma run_steps_append:
  "run_steps (fs @ gs) w = (case run_steps fs w of Inl x \<Rightarrow> Inl x | Inr w' \<Rightarrow> run_steps gs w')"
  by (induction fs arbitrary: w) (auto split: sum.splits)

lemma rotate_small:
  assumes "finalSize env \<le> 50 * 1024 * 1024"
  shows "rotate env w = Inr w"
  using assms by (simp add: rotate_def rotation_threshold_def)

lemma rotate_large:
  assumes "finalSize env > 50 * 1024 * 1024"
    and "\<forall>l \<in> set rotation_calls. \<not> throws env l"
    and "live w = Some db"
  shows "rotate env w =
    Inr (w\<lparr>live := Some fresh_database,
           backups := Some ((case backups w of None \<Rightarrow> Map.empty | Some dir \<Rightarrow> dir)
                              (backupName (iso_string_73 env) \<mapsto> main_file_75 env)),
           console := console w @
             [StillLarge, CreatedBackup (backupName (iso_string_73 env)), CreatedFresh]\<rparr>)"
proof -
  let ?w2 = "w\<lparr>live := None,
           backups := Some ((case backups w of None \<Rightarrow> Map.empty | Some dir \<Rightarrow> dir)
                              (backupName (iso_string_73 env) \<mapsto> main_file_75 env)),
           console := console w @ [StillLarge, CreatedBackup (backupName (iso_string_73 env))]\<rparr>"
  have thr: "\<not> throws env 70" "\<not> throws env 75"
    using assms(2) by (simp_all add: rotation_calls_def)
  have "run_steps [tell StillLarge, ensure_backups env, rename_live env] w = Inr ?w2"
    using thr assms(3)
    by (simp add: tell_def say_def ensure_backups_def rename_live_def split: option.splits)
  moreover have "reinitialize env ?w2 = Inr (?w2\<lparr>live := Some fresh_database, console := console ?w2 @ [CreatedFresh]\<rparr>)"
    by (rule reinitialize_fresh [OF assms(2)]) simp
  ultimately show ?thesis
    using assms(1)
      run_steps_append [of "[tell StillLarge, ensure_backups env, rename_live env]" "[reinitialize env]" w]
    by (simp add: rotate_def rotation_threshold_def)
qed

lemma rotate_rename_throws:
  assumes "finalSize env > 50 * 1024 * 1024"
    and "throws env 75"
    and "backups w = None \<longrightarrow> \<not> throws env 70"
  shows "rotate env w =
    Inl (Thrown 75,
         w\<lparr>backups := Some (case backups w of None \<Rightarrow> Map.empty | Some dir \<Rightarrow> dir),
           console := console w @ [StillLarge]\<rparr>)"
  using assms
  by (auto simp add: rotate_def rotation_threshold_def tell_def say_def ensure_backups_def
      rename_live_def split: option.splits)

lemma sample_retain:
  assumes "\<forall>l \<in> set [8, 11, 19, 35, 43, 48, 52, 55, 57]. \<not> thr l"
  shows "retain_and_compact lib (sample_cleanup_env thr final main)
      (say Starting (sample_world [sample_event 1 ''{}'' 99, sample_event 2 ''{}'' 100]
                       [sample_share ''a'' None (Some 7)])) =
    Inr \<lparr>live = Some (sample_db [sample_event 2 ''{}'' 100] [sample_share ''a'' None (Some 7)]),
         backups = None,
         console = [Starting, InitialSize 60000000, DeletedOld 1, TruncatedPayloads 0, DeletedShares 0,
                    RunningVacuum, Reindexing, FinalSize final, SpaceSaved (60000000 - int final)]\<rparr>"
  using assms
  by (simp add: retain_and_compact_def step_defs sample_cleanup_env_def sample_world_def sample_db_def
      sample_event_def sample_share_def remove_old_events_def truncate_large_payloads_def
      remove_expired_shares_def sql_delete_def large_and_old_def expired_def seven_days_def one_day_def)


lemma cleanup_keeps:
  assumes "retain_and_compact lib env (say Starting w) = Inr w1"
    and "finalSize env \<le> 50 * 1024 * 1024"
  shows "cleanupEventsDB lib env w = w1\<lparr>console := console w1 @ [Completed]\<rparr>"
  using assms by (simp add: cleanupEventsDB_def try_cleanup_def rotate_small tell_def say_def)

lemma cleanup_rotates:
  assumes "retain_and_compact lib env (say Starting w) = Inr w1"
    and "finalSize env > 50 * 1024 * 1024"
    and "\<forall>l \<in> set rotation_calls. \<not> throws env l"
  shows "cleanupEventsDB lib env w =
      w1\<lparr>live := Some fresh_database,
         backups := Some ((case backups w1 of None \<Rightarrow> Map.empty | Some dir \<Rightarrow> dir)
                            (backupName (iso_string_73 env) \<mapsto> main_file_75 env)),
         console := console w1 @
           [StillLarge, CreatedBackup (backupName (iso_string_73 env)), CreatedFresh, Completed]\<rparr>"
proof -
  from retain_and_compact_Inr [OF assms(1)] obtain db1 where "live w1 = Some db1"
    by (auto simp: say_def)
  with assms show ?thesis
    by (simp add: cleanupEventsDB_def try_cleanup_def rotate_large tell_def say_def)
qed

lemma try_stats_reads:
  assumes "\<not> stats_fails env w"
  shows "try_stats env w =
       Inr (\<lparr>size_bytes = size_184 env,
             sizeFormatted = to_fixed_2_mb (size_184 env) @ '' MB'',
             totalEvents = length (live_events w),
             eventsLast7Days = length (filter (\<lambda>e. timestamp e > date_now_190 env - seven_days) (live_events w)),
             oldEvents = length (filter (\<lambda>e. timestamp e < date_now_190 env - seven_days) (live_events w)),
             largePayloads = length (filter (\<lambda>e. length (payload e) > 10000) (live_events w)),
             lastCleanup = iso_string_206 env\<rparr>, w)"
  using assms
  by (auto simp: stats_fails_def stats_calls_def try_stats_def open_database_def query_def
      count_events_def sql_count_def close_database_def live_events_def split: option.splits)

lemma try_stats_fails:
  assumes "stats_fails env w"
  shows "\<exists>e w'. try_stats env w = Inl (e, w') \<and> backups w' = backups w \<and> console w' = console w \<and>
     (live w \<noteq> None \<longrightarrow> live w' = live w)"
  using assms
  by (auto simp: stats_fails_def stats_calls_def try_stats_def open_database_def query_def
      count_events_def sql_count_def close_database_def blank_database_def split: option.splits)

lemma length_three_way:
  "length xs = length (filter (\<lambda>e. f e > (c::int)) xs) + length (filter (\<lambda>e. f e < c) xs)
     + length (filter (\<lambda>e. f e = c) xs)"
  by (induction xs) auto

section \<open>Retention: age and share expiry\<close>

text \<open>
  C2. The age-retention statement of a run at time \<open>now\<close> removes exactly the events
  whose timestamp is strictly below \<open>now\<close> minus seven days (604,800,000 ms) and
  reports their number; the events at or after the cutoff stay, each with all of its
  columns, in their order, and no other table changes.
\<close>

theorem age_retention_removes_exactly_the_old_events:
  assumes "events db = Some rows"
  shows "remove_old_events (now - seven_days) db =
           Inr (db\<lparr>events := Some (filter (\<lambda>e. now - 604800000 \<le> timestamp e) rows)\<rparr>,
                length (filter (\<lambda>e. timestamp e < now - 604800000) rows))
         \<and> (\<forall>e. e \<in> set (filter (\<lambda>e. now - 604800000 \<le> timestamp e) rows) \<longleftrightarrow>
                e \<in> set rows \<and> \<not> timestamp e < now - 604800000)"
  using assms by (auto simp add: remove_old_events_def sql_delete_def not_less seven_days_def)

theorem age_retention_witness:
  "events (sample_db [sample_event 1 ''{}'' 99, sample_event 2 ''{}'' 100, sample_event 3 ''{}'' 101] []) =
     Some [sample_event 1 ''{}'' 99, sample_event 2 ''{}'' 100, sample_event 3 ''{}'' 101]
   \<and> remove_old_events (604800100 - seven_days)
       (sample_db [sample_event 1 ''{}'' 99, sample_event 2 ''{}'' 100, sample_event 3 ''{}'' 101] []) =
     Inr (sample_db [sample_event 2 ''{}'' 100, sample_event 3 ''{}'' 101] [], 1)"
  using age_retention_removes_exactly_the_old_events
    [of "sample_db [sample_event 1 ''{}'' 99, sample_event 2 ''{}'' 100, sample_event 3 ''{}'' 101] []"
        "[sample_event 1 ''{}'' 99, sample_event 2 ''{}'' 100, sample_event 3 ''{}'' 101]" 604800100]
  by (simp add: sample_db_def sample_event_def)

text \<open>
  C5. The share-expiry statement at time \<open>now\<close> removes exactly the shares whose
  \<open>expiresAt\<close> is not NULL and strictly below \<open>now\<close>, and reports their number; a
  share with NULL expiry, or with an expiry at or after \<open>now\<close>, stays with all of its
  columns (\<open>accessCount\<close> among them), and no other table changes.
\<close>

theorem share_expiry_removes_exactly_the_expired:
  assumes "theme_shares db = Some rows"
  shows "remove_expired_shares now db =
           Inr (db\<lparr>theme_shares :=
                   Some (filter (\<lambda>s. case expiresAt s of None \<Rightarrow> True | Some t \<Rightarrow> now \<le> t) rows)\<rparr>,
                length (filter (\<lambda>s. case expiresAt s of None \<Rightarrow> False | Some t \<Rightarrow> t < now) rows))
         \<and> (\<forall>s. s \<in> set (filter (\<lambda>s. case expiresAt s of None \<Rightarrow> True | Some t \<Rightarrow> now \<le> t) rows) \<longleftrightarrow>
                s \<in> set rows \<and> (expiresAt s = None \<or> (\<exists>t. expiresAt s = Some t \<and> now \<le> t)))"
proof -
  have same: "(\<lambda>s. \<not> expired now s) = (\<lambda>s. case expiresAt s of None \<Rightarrow> True | Some t \<Rightarrow> now \<le> t)"
    by (auto simp: expired_def fun_eq_iff split: option.splits)
  have "expired now = (\<lambda>s. case expiresAt s of None \<Rightarrow> False | Some t \<Rightarrow> t < now)"
    by (auto simp: expired_def fun_eq_iff)
  with same assms show ?thesis
    by (auto simp: remove_expired_shares_def sql_delete_def split: option.splits)
qed

theorem share_expiry_witness:
  "theme_shares (sample_db []
       [sample_share ''a'' None (Some 7), sample_share ''b'' (Some 99) (Some 1),
        sample_share ''c'' (Some 100) None, sample_share ''d'' (Some 101) (Some 3)]) =
     Some [sample_share ''a'' None (Some 7), sample_share ''b'' (Some 99) (Some 1),
        sample_share ''c'' (Some 100) None, sample_share ''d'' (Some 101) (Some 3)]
   \<and> remove_expired_shares 100 (sample_db []
       [sample_share ''a'' None (Some 7), sample_share ''b'' (Some 99) (Some 1),
        sample_share ''c'' (Some 100) None, sample_share ''d'' (Some 101) (Some 3)]) =
     Inr (sample_db []
       [sample_share ''a'' None (Some 7), sample_share ''c'' (Some 100) None,
        sample_share ''d'' (Some 101) (Some 3)], 1)"
  using share_expiry_removes_exactly_the_expired
    [of "sample_db []
       [sample_share ''a'' None (Some 7), sample_share ''b'' (Some 99) (Some 1),
        sample_share ''c'' (Some 100) None, sample_share ''d'' (Some 101) (Some 3)]"
       "[sample_share ''a'' None (Some 7), sample_share ''b'' (Some 99) (Some 1),
        sample_share ''c'' (Some 100) None, sample_share ''d'' (Some 101) (Some 3)]" 100]
  by (simp add: sample_db_def sample_share_def)


section \<open>Truncation of large payloads\<close>




text \<open>
  C4, as the code has it. When the truncation statement has completed, and every marker
  it wrote is at most 10,000 characters long, running it again with the same bound
  changes no row: the result is the same database and 0 changes.
\<close>

theorem truncation_is_idempotent_while_markers_stay_small:
  assumes "events db = Some rows"
    and "truncate_large_payloads lib bound db = Inr (db1, n)"
    and "\<forall>e \<in> set rows. large_and_old bound e \<longrightarrow>
           (\<forall>m. marker lib (payload e) = Inr m \<longrightarrow> length m \<le> 10000)"
  shows "truncate_large_payloads lib bound db1 = Inr (db1, 0)"
proof -
  from assms(1,2) obtain rows1 where
    upd: "sql_update (large_and_old bound) (set_marker lib) rows = Inr (rows1, n)"
    and db1: "db1 = db\<lparr>events := Some rows1\<rparr>"
    by (auto simp: truncate_large_payloads_def split: sum.splits)
  from sql_update_Inr [OF upd] have
    rel: "list_all2 (\<lambda>r r'. if large_and_old bound r then set_marker lib r = Inr r' else r' = r) rows rows1"
    by simp
  have "\<not> large_and_old bound r'" if "r' \<in> set rows1" for r'
  proof -
    from that obtain i where i: "i < length rows1" "r' = rows1 ! i"
      by (auto simp: in_set_conv_nth)
    with rel have len: "i < length rows"
      and "if large_and_old bound (rows ! i) then set_marker lib (rows ! i) = Inr r' else r' = rows ! i"
      by (auto simp: list_all2_conv_all_nth)
    then obtain r where r: "r \<in> set rows"
      and step: "if large_and_old bound r then set_marker lib r = Inr r' else r' = r"
      using nth_mem by blast
    show ?thesis
    proof (cases "large_and_old bound r")
      case True
      with step obtain m where "marker lib (payload r) = Inr m" "r' = r\<lparr>payload := m\<rparr>"
        by (auto simp: set_marker_def split: sum.splits)
      with assms(3) r True have "length (payload r') \<le> 10000" by auto
      then show ?thesis by (simp add: large_and_old_def)
    next
      case False
      with step show ?thesis by simp
    qed
  qed
  then have "sql_update (large_and_old bound) (set_marker lib) rows1 = Inr (rows1, 0)"
    by (intro sql_update_none) blast
  with db1 show ?thesis
    by (simp add: truncate_large_payloads_def)
qed

theorem truncation_idempotent_witness:
  "truncate_large_payloads sample_sqlite 100
      (sample_db [sample_event 1 padded_payload 0, sample_event 2 padded_payload 200] []) =
     Inr (sample_db [sample_event 1 padded_marker 0, sample_event 2 padded_payload 200] [], 1)
   \<and> truncate_large_payloads sample_sqlite 100
      (sample_db [sample_event 1 padded_marker 0, sample_event 2 padded_payload 200] []) =
     Inr (sample_db [sample_event 1 padded_marker 0, sample_event 2 padded_payload 200] [], 0)"
proof -
  let ?db = "sample_db [sample_event 1 padded_payload 0, sample_event 2 padded_payload 200] []"
  let ?db1 = "sample_db [sample_event 1 padded_marker 0, sample_event 2 padded_payload 200] []"
  have rows: "events ?db = Some [sample_event 1 padded_payload 0, sample_event 2 padded_payload 200]"
    by (simp add: sample_db_def)
  have once: "truncate_large_payloads sample_sqlite 100 ?db = Inr (?db1, 1)"
    by (simp add: truncate_large_payloads_def sample_db_def sample_event_def large_and_old_def
        set_marker_def marker_padded length_padded)
  have small: "\<forall>e \<in> set [sample_event 1 padded_payload 0, sample_event 2 padded_payload 200].
      large_and_old 100 e \<longrightarrow> (\<forall>m. marker sample_sqlite (payload e) = Inr m \<longrightarrow> length m \<le> 10000)"
    by (simp add: sample_event_def marker_padded length_padded_marker)
  from truncation_is_idempotent_while_markers_stay_small [OF rows once small] once
  show ?thesis by simp
qed

text \<open>
  C4 as stated fails: a marker keeps the three preserved members whole, so it can be
  longer than 10,000 characters. The payload here has a \<open>source_app\<close> of 10,000
  characters; its marker is 10,094 characters long, and a second run of the statement
  replaces it by another marker, whose \<open>original_size\<close> is 10094 and no longer 10017.
\<close>

theorem truncation_is_not_idempotent_counterexample:
  "truncate_large_payloads sample_sqlite 100 (sample_db [sample_event 1 oversized_payload 0] []) =
     Inr (sample_db [sample_event 1 first_marker 0] [], 1)
   \<and> truncate_large_payloads sample_sqlite 100 (sample_db [sample_event 1 first_marker 0] []) =
     Inr (sample_db [sample_event 1 second_marker 0] [], 1)
   \<and> sample_db [sample_event 1 second_marker 0] [] \<noteq> sample_db [sample_event 1 first_marker 0] []
   \<and> length first_marker = 10094"
  by (simp add: truncate_large_payloads_def sample_db_def sample_event_def large_and_old_def
      set_marker_def marker_oversized length_oversized marker_first_marker length_first_marker)
    (simp add: first_marker_def second_marker_def)




section \<open>Rotation\<close>

text \<open>
  C1. Take a run whose retention and compaction steps have completed, leaving the state
  \<open>w1\<close>. If the size measured after compaction is at most 50 * 1024 * 1024 bytes,
  the rotation does nothing: the run ends in \<open>w1\<close> with the closing console line,
  so the live file is as compaction left it and the backups are those from before the
  run.
  If the size is strictly larger and no library call of the rotation raises, the main
  file is renamed to one path of the backup directory (which is created when absent;
  the other backups stay, and a backup of the same name is replaced), and the live path
  then holds the fresh database: the four tables with no row, the nine indexes. The
  backup is the main file as the rename found it; the database that retention and
  compaction left is at neither place unless the main file held it.
\<close>

theorem rotation_only_above_fifty_megabytes:
  assumes "retain_and_compact lib env (say Starting w) = Inr w1"
  shows "(finalSize env \<le> 50 * 1024 * 1024 \<longrightarrow>
            cleanupEventsDB lib env w = w1\<lparr>console := console w1 @ [Completed]\<rparr>)
       \<and> (finalSize env > 50 * 1024 * 1024 \<and> (\<forall>l \<in> set rotation_calls. \<not> throws env l) \<longrightarrow>
            cleanupEventsDB lib env w =
              w1\<lparr>live := Some fresh_database,
                 backups := Some ((case backups w1 of None \<Rightarrow> Map.empty | Some dir \<Rightarrow> dir)
                                    (backupName (iso_string_73 env) \<mapsto> main_file_75 env)),
                 console := console w1 @
                   [StillLarge, CreatedBackup (backupName (iso_string_73 env)), CreatedFresh,
                    Completed]\<rparr>)
       \<and> live w1 \<noteq> None
       \<and> backups w1 = backups w
       \<and> events fresh_database = Some [] \<and> themes fresh_database = Some []
       \<and> theme_shares fresh_database = Some [] \<and> theme_ratings fresh_database = Some []"
proof -
  from retain_and_compact_Inr [OF assms] obtain db1 where live1: "live w1 = Some db1"
    and same: "backups w1 = backups w"
    by (auto simp: say_def)
  note small = cleanup_keeps [OF assms]
  note large = cleanup_rotates [OF assms]
  show ?thesis
    using small large live1 same by (auto simp: fresh_database_def)
qed

text \<open>
  The two runs below differ by one byte of the measured size. In the second one the
  write-ahead log has not been checkpointed, so that the main file, and with it the
  backup, still holds the event that the run has deleted.
\<close>

theorem rotation_witness:
  "cleanupEventsDB sample_sqlite
      (sample_cleanup_env never 52428800
         (sample_db [sample_event 1 ''{}'' 99, sample_event 2 ''{}'' 100] [sample_share ''a'' None (Some 7)]))
      (sample_world [sample_event 1 ''{}'' 99, sample_event 2 ''{}'' 100] [sample_share ''a'' None (Some 7)]) =
     \<lparr>live = Some (sample_db [sample_event 2 ''{}'' 100] [sample_share ''a'' None (Some 7)]),
      backups = None,
      console = [Starting, InitialSize 60000000, DeletedOld 1, TruncatedPayloads 0, DeletedShares 0,
                 RunningVacuum, Reindexing, FinalSize 52428800, SpaceSaved 7571200, Completed]\<rparr>
   \<and> cleanupEventsDB sample_sqlite
      (sample_cleanup_env never 52428801
         (sample_db [sample_event 1 ''{}'' 99, sample_event 2 ''{}'' 100] [sample_share ''a'' None (Some 7)]))
      (sample_world [sample_event 1 ''{}'' 99, sample_event 2 ''{}'' 100] [sample_share ''a'' None (Some 7)]) =
     \<lparr>live = Some fresh_database,
      backups = Some [''backups/events_2026-11-03T10-20-30-123Z.db'' \<mapsto>
                       sample_db [sample_event 1 ''{}'' 99, sample_event 2 ''{}'' 100]
                         [sample_share ''a'' None (Some 7)]],
      console = [Starting, InitialSize 60000000, DeletedOld 1, TruncatedPayloads 0, DeletedShares 0,
                 RunningVacuum, Reindexing, FinalSize 52428801, SpaceSaved 7571199, StillLarge,
                 CreatedBackup ''backups/events_2026-11-03T10-20-30-123Z.db'', CreatedFresh,
                 Completed]\<rparr>"
  using rotation_only_above_fifty_megabytes
      [OF sample_retain [of never sample_sqlite 52428800
            "sample_db [sample_event 1 ''{}'' 99, sample_event 2 ''{}'' 100] [sample_share ''a'' None (Some 7)]"]]
    rotation_only_above_fifty_megabytes
      [OF sample_retain [of never sample_sqlite 52428801
            "sample_db [sample_event 1 ''{}'' 99, sample_event 2 ''{}'' 100] [sample_share ''a'' None (Some 7)]"]]
  by (simp add: sample_cleanup_env_def backupName_def)

text \<open>
  C6. Take a run whose retention and compaction steps have completed, leaving \<open>w1\<close>,
  with a size above the threshold, and let \<^verbatim>\<open>renameSync\<close> (line 75) raise. The
  function still returns; the live file is the one of \<open>w1\<close>, so nothing that
  retention and compaction did is rolled back; and the console holds the reports of the
  retention statements and of compaction, then the start of the rotation and the error
  raised on line 75, with neither the backup line nor the closing line.
\<close>

theorem rename_failure_is_caught_and_nothing_is_rolled_back:
  assumes "retain_and_compact lib env (say Starting w) = Inr w1"
    and "finalSize env > 50 * 1024 * 1024"
    and "throws env 75"
    and "backups w1 = None \<longrightarrow> \<not> throws env 70"
  shows "cleanupEventsDB lib env w =
           w1\<lparr>backups := Some (case backups w1 of None \<Rightarrow> Map.empty | Some dir \<Rightarrow> dir),
              console := console w1 @ [StillLarge, CleanupError (Thrown 75)]\<rparr>
       \<and> live (cleanupEventsDB lib env w) = live w1
       \<and> (\<exists>n1 n2 n3.
            console w1 =
              console w @
                [Starting, InitialSize (initialSize env), DeletedOld n1, TruncatedPayloads n2,
                 DeletedShares n3, RunningVacuum, Reindexing, FinalSize (finalSize env),
                 SpaceSaved (int (initialSize env) - int (finalSize env))])"
proof -
  have run: "cleanupEventsDB lib env w =
      w1\<lparr>backups := Some (case backups w1 of None \<Rightarrow> Map.empty | Some dir \<Rightarrow> dir),
         console := console w1 @ [StillLarge, CleanupError (Thrown 75)]\<rparr>"
    using assms
    by (simp add: cleanupEventsDB_def try_cleanup_def rotate_rename_throws say_def)
  from retain_and_compact_Inr [OF assms(1)] obtain n1 n2 n3 where
    "console w1 = console w @
                [Starting, InitialSize (initialSize env), DeletedOld n1, TruncatedPayloads n2,
                 DeletedShares n3, RunningVacuum, Reindexing, FinalSize (finalSize env),
                 SpaceSaved (int (initialSize env) - int (finalSize env))]"
    by (auto simp: say_def)
  with run show ?thesis by auto
qed

theorem rename_failure_witness:
  "cleanupEventsDB sample_sqlite (sample_cleanup_env (only 75) 52428801 (sample_db [] []))
      (sample_world [sample_event 1 ''{}'' 99, sample_event 2 ''{}'' 100] [sample_share ''a'' None (Some 7)]) =
     \<lparr>live = Some (sample_db [sample_event 2 ''{}'' 100] [sample_share ''a'' None (Some 7)]),
      backups = Some Map.empty,
      console = [Starting, InitialSize 60000000, DeletedOld 1, TruncatedPayloads 0, DeletedShares 0,
                 RunningVacuum, Reindexing, FinalSize 52428801, SpaceSaved 7571199, StillLarge,
                 CleanupError (Thrown 75)]\<rparr>"
proof -
  let ?w = "sample_world [sample_event 1 ''{}'' 99, sample_event 2 ''{}'' 100] [sample_share ''a'' None (Some 7)]"
  let ?e = "sample_cleanup_env (only 75) 52428801 (sample_db [] [])"
  have r: "retain_and_compact sample_sqlite ?e (say Starting ?w) = Inr \<lparr>live = Some (sample_db [sample_event 2 ''{}'' 100] [sample_share ''a'' None (Some 7)]),
         backups = None,
         console = [Starting, InitialSize 60000000, DeletedOld 1, TruncatedPayloads 0, DeletedShares 0,
                    RunningVacuum, Reindexing, FinalSize 52428801, SpaceSaved (60000000 - int 52428801)]\<rparr>"
    by (rule sample_retain) simp
  have "finalSize ?e > 50 * 1024 * 1024" "throws ?e 75"
    by (simp_all add: sample_cleanup_env_def)
  from rename_failure_is_caught_and_nothing_is_rolled_back [OF r this]
  show ?thesis
    by (simp add: sample_cleanup_env_def)
qed

section \<open>Statistics\<close>

text \<open>
  C7, as the code has it. \<open>getDatabaseStats\<close> always returns a stats record. It never
  changes the backup directory, and it never changes a data file that exists. When there
  is no data file, the open of line 181 creates an empty database, with no table and no
  row (nothing is created when the open itself raises). On every read failure, that case
  among them, the record is the sentinel: size 0, \<^verbatim>\<open>0 MB\<close>, all counts 0,
  \<^verbatim>\<open>Never\<close>. When nothing fails the whole state is unchanged.
\<close>

theorem stats_keeps_an_existing_store_and_returns_the_sentinel_on_failure:
  "backups (snd (getDatabaseStats env w)) = backups w
   \<and> (\<forall>db. live w = Some db \<longrightarrow> live (snd (getDatabaseStats env w)) = Some db)
   \<and> (live w = None \<longrightarrow>
        live (snd (getDatabaseStats env w)) =
          (if stats_throws env 181 then None else Some blank_database))
   \<and> (stats_fails env w \<longrightarrow>
        fst (getDatabaseStats env w) =
          \<lparr>size_bytes = 0, sizeFormatted = ''0 MB'', totalEvents = 0, eventsLast7Days = 0,
           oldEvents = 0, largePayloads = 0, lastCleanup = ''Never''\<rparr>)
   \<and> (\<not> stats_fails env w \<longrightarrow>
        snd (getDatabaseStats env w) = w \<and>
        size_bytes (fst (getDatabaseStats env w)) = size_184 env \<and>
        totalEvents (fst (getDatabaseStats env w)) = length (live_events w))"
proof (cases "stats_fails env w")
  case True
  have none: "live w = None \<Longrightarrow>
      live (snd (getDatabaseStats env w)) = (if stats_throws env 181 then None else Some blank_database)"
    by (simp add: getDatabaseStats_def try_stats_def open_database_def query_def count_events_def
        blank_database_def say_def)
  from try_stats_fails [OF True] show ?thesis
    using True none by (auto simp: getDatabaseStats_def sentinel_def say_def)
next
  case False
  from try_stats_reads [OF False] show ?thesis
    using False by (auto simp: getDatabaseStats_def stats_fails_def split: option.splits)
qed

theorem stats_keeps_store_witness:
  "stats_fails (sample_stats_env (only 191)) (sample_world [sample_event 1 ''{}'' 100] [])
   \<and> getDatabaseStats (sample_stats_env (only 191)) (sample_world [sample_event 1 ''{}'' 100] []) =
       (\<lparr>size_bytes = 0, sizeFormatted = ''0 MB'', totalEvents = 0, eventsLast7Days = 0,
           oldEvents = 0, largePayloads = 0, lastCleanup = ''Never''\<rparr>,
        (sample_world [sample_event 1 ''{}'' 100] [])\<lparr>console := [StatsError (Thrown 191)]\<rparr>)
   \<and> \<not> stats_fails (sample_stats_env never) (sample_world [sample_event 1 ''{}'' 100] [])
   \<and> getDatabaseStats (sample_stats_env never) (sample_world [sample_event 1 ''{}'' 100] []) =
       (\<lparr>size_bytes = 1572864, sizeFormatted = ''1.50 MB'', totalEvents = 1, eventsLast7Days = 0,
           oldEvents = 0, largePayloads = 0, lastCleanup = ''2026-11-04T08:00:00.000Z''\<rparr>,
        sample_world [sample_event 1 ''{}'' 100] [])"
  using stats_keeps_an_existing_store_and_returns_the_sentinel_on_failure
    [of "sample_stats_env (only 191)" "sample_world [sample_event 1 ''{}'' 100] []"]
  by (simp add: stats_fails_def stats_calls_def sample_stats_env_def sample_world_def sample_db_def
      sample_event_def getDatabaseStats_def try_stats_def open_database_def query_def count_events_def
      sql_count_def close_database_def say_def to_fixed_2_mb_def show_nat.simps seven_days_def)

text \<open>
  C7 as stated fails where no data file exists: the call leaves an empty database file
  at the path, and returns the sentinel because that file has no events table.
\<close>

theorem stats_creates_a_missing_file_counterexample:
  "live no_file = None
   \<and> getDatabaseStats (sample_stats_env never) no_file =
       (\<lparr>size_bytes = 0, sizeFormatted = ''0 MB'', totalEvents = 0, eventsLast7Days = 0,
          oldEvents = 0, largePayloads = 0, lastCleanup = ''Never''\<rparr>,
        \<lparr>live = Some blank_database, backups = None,
         console = [StatsError (NoSuchTable ''events'')]\<rparr>)"
  by (simp add: no_file_def sample_stats_env_def getDatabaseStats_def try_stats_def open_database_def
      query_def count_events_def blank_database_def say_def sentinel_def)

text \<open>
  C8. In the record \<open>getDatabaseStats\<close> returns, \<open>eventsLast7Days\<close> and
  \<open>oldEvents\<close> never add up to more than \<open>totalEvents\<close>. When the read succeeds,
  \<open>totalEvents\<close> counts every event, \<open>eventsLast7Days\<close> those strictly after
  \<open>now\<close> minus seven days and \<open>oldEvents\<close> those strictly before it, so that
  \<open>totalEvents\<close> exceeds their sum by the number of events exactly on the cutoff.
\<close>

theorem stats_cutoff_event_is_in_neither_bucket:
  assumes "s = fst (getDatabaseStats env w)"
  shows "eventsLast7Days s + oldEvents s \<le> totalEvents s
   \<and> (\<not> stats_fails env w \<longrightarrow>
        totalEvents s = length (live_events w) \<and>
        eventsLast7Days s = length (filter (\<lambda>e. timestamp e > date_now_190 env - 604800000) (live_events w)) \<and>
        oldEvents s = length (filter (\<lambda>e. timestamp e < date_now_190 env - 604800000) (live_events w)) \<and>
        totalEvents s = eventsLast7Days s + oldEvents s
          + length (filter (\<lambda>e. timestamp e = date_now_190 env - 604800000) (live_events w)))"
proof (cases "stats_fails env w")
  case True
  from try_stats_fails [OF True] show ?thesis
    using True assms by (auto simp: getDatabaseStats_def sentinel_def)
next
  case False
  from try_stats_reads [OF False] show ?thesis
    using False assms length_three_way [where xs = "live_events w" and f = timestamp and c = "date_now_190 env - 604800000"]
    by (auto simp: getDatabaseStats_def seven_days_def)
qed

theorem stats_cutoff_witness:
  "\<not> stats_fails (sample_stats_env never)
       (sample_world [sample_event 1 ''{}'' 99, sample_event 2 ''{}'' 100, sample_event 3 ''{}'' 101] [])
   \<and> date_now_190 (sample_stats_env never) - 604800000 = 100
   \<and> totalEvents (fst (getDatabaseStats (sample_stats_env never)
       (sample_world [sample_event 1 ''{}'' 99, sample_event 2 ''{}'' 100, sample_event 3 ''{}'' 101] []))) = 3
   \<and> eventsLast7Days (fst (getDatabaseStats (sample_stats_env never)
       (sample_world [sample_event 1 ''{}'' 99, sample_event 2 ''{}'' 100, sample_event 3 ''{}'' 101] []))) = 1
   \<and> oldEvents (fst (getDatabaseStats (sample_stats_env never)
       (sample_world [sample_event 1 ''{}'' 99, sample_event 2 ''{}'' 100, sample_event 3 ''{}'' 101] []))) = 1"
  using stats_cutoff_event_is_in_neither_bucket
    [of "fst (getDatabaseStats (sample_stats_env never)
       (sample_world [sample_event 1 ''{}'' 99, sample_event 2 ''{}'' 100, sample_event 3 ''{}'' 101] []))"
       "sample_stats_env never"
       "sample_world [sample_event 1 ''{}'' 99, sample_event 2 ''{}'' 100, sample_event 3 ''{}'' 101] []"]
  by (simp add: stats_fails_def stats_calls_def sample_stats_env_def sample_world_def sample_db_def
      sample_event_def live_events_def)

text \<open>
  C9. \<open>lastCleanup\<close> is the ISO time of the stats call itself (line 206) when the read
  succeeds and \<^verbatim>\<open>Never\<close> when it fails, in every state, and so also in the state
  any run of \<open>cleanupEventsDB\<close> leaves: no state records when a cleanup ran.
\<close>

theorem last_cleanup_is_the_time_of_the_stats_call:
  "lastCleanup (fst (getDatabaseStats env w)) =
     (if stats_fails env w then ''Never'' else iso_string_206 env)
   \<and> lastCleanup (fst (getDatabaseStats env (cleanupEventsDB lib cenv w))) =
     (if stats_fails env (cleanupEventsDB lib cenv w) then ''Never'' else iso_string_206 env)"
proof -
  have "lastCleanup (fst (getDatabaseStats env v)) =
     (if stats_fails env v then ''Never'' else iso_string_206 env)" for v
  proof (cases "stats_fails env v")
    case True
    from try_stats_fails [OF True] show ?thesis
      using True by (auto simp: getDatabaseStats_def sentinel_def)
  next
    case False
    from try_stats_reads [OF False] show ?thesis
      using False by (simp add: getDatabaseStats_def)
  qed
  then show ?thesis by blast
qed

theorem last_cleanup_witness:
  "lastCleanup (fst (getDatabaseStats (sample_stats_env never)
      (sample_world [sample_event 1 ''{}'' 99] []))) = ''2026-11-04T08:00:00.000Z''
   \<and> lastCleanup (fst (getDatabaseStats (sample_stats_env (only 188))
      (sample_world [sample_event 1 ''{}'' 99] []))) = ''Never''
   \<and> lastCleanup (fst (getDatabaseStats (sample_stats_env never)
      no_file)) = ''Never''"
  using last_cleanup_is_the_time_of_the_stats_call
      [of "sample_stats_env never" "sample_world [sample_event 1 ''{}'' 99] []"]
    last_cleanup_is_the_time_of_the_stats_call
      [of "sample_stats_env (only 188)" "sample_world [sample_event 1 ''{}'' 99] []"]
    last_cleanup_is_the_time_of_the_stats_call
      [of "sample_stats_env never" no_file]
  by (simp add: stats_fails_def stats_calls_def sample_stats_env_def sample_world_def sample_db_def
      no_file_def)

end
